theory Spec2Isabelle
  imports Complex_Main "HOL-Library.Sublist"
begin

section \<open>The request handler of \<^verbatim>\<open>src/main.py\<close>\<close>

text \<open>
  The repository is one module with one request handler, \<^verbatim>\<open>analyze_image\<close>. It reads two
  module globals (\<^verbatim>\<open>HF_API_KEY\<close>, \<^verbatim>\<open>hf_client\<close>) and its argument \<^verbatim>\<open>file\<close>, calls
  \<^verbatim>\<open>file.read()\<close>, \<^verbatim>\<open>hf_client.image_to_text\<close> and \<^verbatim>\<open>hf_client.chat_completion\<close>, and either
  returns a dictionary or raises. The three calls are the handler's collaborators: each is
  a parameter of the model, with an outcome that is a raised exception (\<open>Inl\<close>) or a returned
  value (\<open>Inr\<close>). The calls the handler makes are recorded in a list that is passed in and
  returned extended. Calls to \<^verbatim>\<open>logger\<close> are left out: they return nothing the handler uses.
\<close>

subsection \<open>Strings\<close>

text \<open>
  A Python \<^verbatim>\<open>str\<close> is modelled as a \<^typ>\<open>string\<close> whose characters are the code points
  below 256. \<open>isspace\<close> is \<^verbatim>\<open>str.isspace\<close> on one such character: the code points
  9 to 13, 28 to 32, 133 and 160. \<open>strip\<close> is \<^verbatim>\<open>str.strip()\<close> with no argument and
  \<open>startswith\<close> is \<^verbatim>\<open>str.startswith\<close> with one string argument.
\<close>

definition isspace :: "char \<Rightarrow> bool" where
  "isspace c = (of_char c \<in> {9, 10, 11, 12, 13, 28, 29, 30, 31, 32, 133, 160 :: nat})"

definition lstrip :: "string \<Rightarrow> string" where
  "lstrip s = dropWhile isspace s"

definition rstrip :: "string \<Rightarrow> string" where
  "rstrip s = rev (dropWhile isspace (rev s))"

definition strip :: "string \<Rightarrow> string" where
  "strip s = rstrip (lstrip s)"

definition startswith :: "string \<Rightarrow> string \<Rightarrow> bool" where
  "startswith s p = prefix p s"

subsection \<open>Exceptions\<close>

text \<open>
  An exception raised by a collaborator is an instance of \<^verbatim>\<open>Exception\<close>. The handler looks
  at two things only: \<^verbatim>\<open>str(e)\<close> (\<open>exc_str\<close>), and whether \<open>e\<close> is an instance of
  \<^verbatim>\<open>HTTPException\<close> (\<open>exc_http\<close>, holding its \<^verbatim>\<open>status_code\<close> and \<^verbatim>\<open>detail\<close> when it is).
  What leaves the handler is an \<open>HTTPException\<close> with the status and detail the handler
  gave it, or another exception unchanged.
\<close>

datatype py_exception =
  PyException (exc_http: "(nat \<times> string) option") (exc_str: string)

datatype raised =
    HTTPException nat string
  | Other py_exception

definition raise :: "py_exception \<Rightarrow> raised" where
  "raise e = (case exc_http e of Some (sc, d) \<Rightarrow> HTTPException sc d | None \<Rightarrow> Other e)"

text \<open>The \<^verbatim>\<open>AttributeError\<close> of an attribute lookup on an object of class \<open>cls\<close>.\<close>

definition quoted :: "string \<Rightarrow> string" where
  "quoted s = [CHR 0x27] @ s @ [CHR 0x27]"

definition AttributeError :: "string \<Rightarrow> string \<Rightarrow> py_exception" where
  "AttributeError cls attr =
     PyException None (quoted cls @ '' object has no attribute '' @ quoted attr)"

text \<open>The \<^verbatim>\<open>IndexError\<close> of \<^verbatim>\<open>xs[0]\<close> on an empty list.\<close>

definition IndexError :: py_exception where
  "IndexError = PyException None ''list index out of range''"

subsection \<open>Collaborators\<close>

type_synonym bytes = "nat list"

text \<open>
  The argument \<^verbatim>\<open>file\<close>: the handler reads \<^verbatim>\<open>file.content_type\<close> (a string or \<^verbatim>\<open>None\<close>) and
  awaits \<^verbatim>\<open>file.read()\<close>. \<open>filename\<close> stands for what an upload carries and the handler
  never looks at.
\<close>

record upload_file =
  filename :: "string option"
  content_type :: "string option"
  read :: "py_exception + bytes"

text \<open>
  The value \<^verbatim>\<open>image_to_text\<close> returns is a \<^verbatim>\<open>str\<close> (\<open>Text\<close>) or an object of another class,
  named by \<open>NonText\<close>, that has no \<^verbatim>\<open>strip\<close> attribute.
\<close>

datatype vision_result = Text string | NonText string

text \<open>
  The keyword arguments of \<^verbatim>\<open>chat_completion\<close>. A message is the dictionary the source
  writes, kept as its list of key and value pairs. \<open>temperature\<close> holds the decimal the
  source writes, \<^verbatim>\<open>0.7\<close>; the handler does no arithmetic on it.
\<close>

record chat_request =
  model :: string
  messages :: "(string \<times> string) list list"
  max_tokens :: nat
  temperature :: rat

text \<open>
  The value \<^verbatim>\<open>chat_completion\<close> returns, as far as the handler reads it:
  \<^verbatim>\<open>response.choices[0].message.content\<close>, a string or \<^verbatim>\<open>None\<close>.
\<close>

record chat_message =
  content :: "string option"

record choice =
  message :: chat_message

record chat_response =
  choices :: "choice list"

record inference_client =
  image_to_text :: "bytes \<Rightarrow> string \<Rightarrow> py_exception + vision_result"
  chat_completion :: "chat_request \<Rightarrow> py_exception + chat_response"

text \<open>
  The module globals the handler reads: the key taken from the environment when the module
  is loaded (\<^verbatim>\<open>os.getenv\<close> gives \<^verbatim>\<open>None\<close> for a variable that is not set) and the client
  that \<^verbatim>\<open>lifespan\<close> created at startup. The handler assigns to neither.
\<close>

record globals =
  HF_API_KEY :: "string option"
  hf_client :: inference_client

datatype call =
    Read
  | ImageToText bytes string
  | ChatCompletion chat_request

subsection \<open>Constants and the response body\<close>

definition VISION_MODEL :: string where
  "VISION_MODEL = ''microsoft/Florence-2-large''"

definition LOGIC_MODEL :: string where
  "LOGIC_MODEL = ''Qwen/Qwen2.5-3B-Instruct''"

definition HTTP_500_INTERNAL_SERVER_ERROR :: nat where
  "HTTP_500_INTERNAL_SERVER_ERROR = 500"

definition HTTP_400_BAD_REQUEST :: nat where
  "HTTP_400_BAD_REQUEST = 400"

definition HTTP_503_SERVICE_UNAVAILABLE :: nat where
  "HTTP_503_SERVICE_UNAVAILABLE = 503"

datatype json = JString string | JNull

type_synonym body = "(string \<times> json) list"

definition json_of :: "string option \<Rightarrow> json" where
  "json_of v = (case v of None \<Rightarrow> JNull | Some s \<Rightarrow> JString s)"

subsection \<open>The handler\<close>

text \<open>\<^verbatim>\<open>not HF_API_KEY\<close>: true of \<^verbatim>\<open>None\<close> and of the empty string.\<close>

definition not_key :: "string option \<Rightarrow> bool" where
  "not_key k = (case k of None \<Rightarrow> True | Some s \<Rightarrow> s = [])"

text \<open>Lines 105 to 108: the two adjacent f-strings, concatenated.\<close>

definition prompt :: "string \<Rightarrow> string" where
  "prompt image_description =
     ''User uploaded an image containing this text: '' @ image_description @ ''. '' @
     ''Act as a helpful assistant and answer the user's request based on this.''"

text \<open>Lines 112 to 123: the arguments of the chat completion call.\<close>

definition logic_request :: "string \<Rightarrow> chat_request" where
  "logic_request p =
     \<lparr>model = LOGIC_MODEL,
      messages = [[(''role'', ''user''), (''content'', p)]],
      max_tokens = 500,
      temperature = 7 / 10\<rparr>"

text \<open>
  Lines 84 to 102, the first inner \<^verbatim>\<open>try\<close>: the call and \<^verbatim>\<open>.strip()\<close> are both inside
  it, and \<^verbatim>\<open>except Exception\<close> turns whatever either raises into a 503.
\<close>

definition vision_failed :: "py_exception \<Rightarrow> raised" where
  "vision_failed e =
     HTTPException HTTP_503_SERVICE_UNAVAILABLE (''Vision model service failed: '' @ exc_str e)"

definition vision_stage :: "inference_client \<Rightarrow> bytes \<Rightarrow> raised + string" where
  "vision_stage client image_content =
     (case image_to_text client image_content VISION_MODEL of
        Inl e \<Rightarrow> Inl (vision_failed e)
      | Inr (Text t) \<Rightarrow> Inr (strip t)
      | Inr (NonText cls) \<Rightarrow> Inl (vision_failed (AttributeError cls ''strip'')))"

text \<open>
  Lines 116 to 133, the second inner \<^verbatim>\<open>try\<close>: the call and the extraction
  \<^verbatim>\<open>response.choices[0].message.content\<close> are both inside it.
\<close>

definition logic_failed :: "py_exception \<Rightarrow> raised" where
  "logic_failed e =
     HTTPException HTTP_503_SERVICE_UNAVAILABLE (''Logic model service failed: '' @ exc_str e)"

definition logic_stage :: "inference_client \<Rightarrow> chat_request \<Rightarrow> raised + string option" where
  "logic_stage client req =
     (case chat_completion client req of
        Inl e \<Rightarrow> Inl (logic_failed e)
      | Inr response \<Rightarrow>
          (case choices response of
             [] \<Rightarrow> Inl (logic_failed IndexError)
           | c # _ \<Rightarrow> Inr (content (message c))))"

text \<open>Lines 67 to 138: the body of the outer \<^verbatim>\<open>try\<close>.\<close>

definition try_body :: "globals \<Rightarrow> upload_file \<Rightarrow> call list \<Rightarrow> (raised + body) \<times> call list" where
  "try_body g file calls =
     (case read file of
        Inl e \<Rightarrow> (Inl (raise e), calls @ [Read])
      | Inr image_content \<Rightarrow>
          (case vision_stage (hf_client g) image_content of
             Inl r \<Rightarrow> (Inl r, calls @ [Read, ImageToText image_content VISION_MODEL])
           | Inr image_description \<Rightarrow>
               (case logic_stage (hf_client g) (logic_request (prompt image_description)) of
                  Inl r \<Rightarrow>
                    (Inl r, calls @ [Read, ImageToText image_content VISION_MODEL,
                                   ChatCompletion (logic_request (prompt image_description))])
                | Inr final_answer \<Rightarrow>
                    (Inr [(''vision_output'', JString image_description),
                          (''final_answer'', json_of final_answer)],
                     calls @ [Read, ImageToText image_content VISION_MODEL,
                            ChatCompletion (logic_request (prompt image_description))]))))"

text \<open>Lines 140 to 147: the two \<^verbatim>\<open>except\<close> clauses of the outer \<^verbatim>\<open>try\<close>, in their order.\<close>

definition outer_except :: "raised + body \<Rightarrow> raised + body" where
  "outer_except r =
     (case r of
        Inl (HTTPException sc d) \<Rightarrow> Inl (HTTPException sc d)
      | Inl (Other e) \<Rightarrow>
          Inl (HTTPException HTTP_500_INTERNAL_SERVER_ERROR
                 ''An unexpected error occurred processing your request.'')
      | Inr b \<Rightarrow> Inr b)"

text \<open>
  Lines 49 to 147. The two checks of lines 55 and 61 stand before the outer \<^verbatim>\<open>try\<close>; the
  second evaluates \<^verbatim>\<open>file.content_type.startswith\<close>, an attribute lookup that raises
  \<^verbatim>\<open>AttributeError\<close> on \<^verbatim>\<open>None\<close>.
\<close>

definition analyze_image :: "globals \<Rightarrow> upload_file \<Rightarrow> call list \<Rightarrow> (raised + body) \<times> call list" where
  "analyze_image g file calls =
     (if not_key (HF_API_KEY g) then
        (Inl (HTTPException HTTP_500_INTERNAL_SERVER_ERROR
                ''Server configuration error: HF_API_KEY is missing.''), calls)
      else
        (case content_type file of
           None \<Rightarrow> (Inl (Other (AttributeError ''NoneType'' ''startswith'')), calls)
         | Some ct \<Rightarrow>
             if \<not> startswith ct ''image/'' then
               (Inl (HTTPException HTTP_400_BAD_REQUEST
                       ''Invalid file type. Please upload an image.''), calls)
             else
               (case try_body g file calls of (r, calls') \<Rightarrow> (outer_except r, calls'))))"

subsection \<open>What the framework sends\<close>

text \<open>
  The route is declared with \<^verbatim>\<open>@app.post("/analyze", response_class=JSONResponse)\<close>. The
  framework sends a returned dictionary as the JSON body of a response with status 200,
  and an \<^verbatim>\<open>HTTPException\<close> as a response with its status code and the body
  \<^verbatim>\<open>{"detail": ...}\<close>. Another exception leaving the handler is not a response of the
  handler's making.
\<close>

definition response :: "raised + body \<Rightarrow> (nat \<times> body) option" where
  "response r =
     (case r of
        Inr b \<Rightarrow> Some (200, b)
      | Inl (HTTPException sc d) \<Rightarrow> Some (sc, [(''detail'', JString d)])
      | Inl (Other e) \<Rightarrow> None)"

subsection \<open>Stubs for concrete runs\<close>

text \<open>
  An upload, a client and the globals built from fixed outcomes, for running the handler
  on concrete inputs. \<open>reply a\<close> is a chat completion with one choice whose message has
  content \<open>a\<close>, and \<open>failing t\<close> is an exception that is not an \<^verbatim>\<open>HTTPException\<close> and
  whose \<^verbatim>\<open>str\<close> is \<open>t\<close>.
\<close>

definition stub_upload :: "string option \<Rightarrow> py_exception + bytes \<Rightarrow> upload_file" where
  "stub_upload ct r = \<lparr>filename = Some ''photo.png'', content_type = ct, read = r\<rparr>"

definition stub_client ::
  "py_exception + vision_result \<Rightarrow> py_exception + chat_response \<Rightarrow> inference_client" where
  "stub_client v l = \<lparr>image_to_text = (\<lambda>image_content m. v), chat_completion = (\<lambda>req. l)\<rparr>"

definition stub_globals :: "string option \<Rightarrow> inference_client \<Rightarrow> globals" where
  "stub_globals k c = \<lparr>HF_API_KEY = k, hf_client = c\<rparr>"

definition reply :: "string option \<Rightarrow> chat_response" where
  "reply a = \<lparr>choices = [\<lparr>message = \<lparr>content = a\<rparr>\<rparr>]\<rparr>"

definition cat_client :: inference_client where
  "cat_client = stub_client (Inr (Text ''a cat sitting on a mat''))
                            (Inr (reply (Some ''The cat is on the mat.'')))"

definition failing :: "string \<Rightarrow> py_exception" where
  "failing t = PyException None t"

definition bicycle_client :: inference_client where
  "bicycle_client = stub_client (Inr (Text ''  a red bicycle  ''))
                                (Inr (reply (Some ''It is a red bicycle.'')))"

section \<open>Properties\<close>

lemmas stub_defs = stub_upload_def stub_client_def stub_globals_def reply_def cat_client_def

lemmas status_defs = HTTP_500_INTERNAL_SERVER_ERROR_def HTTP_400_BAD_REQUEST_def
  HTTP_503_SERVICE_UNAVAILABLE_def

subsection \<open>Validation\<close>

text \<open>
  C3. When \<^verbatim>\<open>HF_API_KEY\<close> is absent the handler raises the 500 with the configuration
  detail, whatever the upload is: its content type may be an image type, another type or
  missing, and its read may succeed or fail. No call is added to the log, so the upload is
  not read and no inference call is made; the content type is not looked at first, since an
  upload without one gets the same answer.
\<close>

theorem missing_key_is_500:
  assumes "HF_API_KEY g = None"
  shows "analyze_image g file calls =
           (Inl (HTTPException 500 ''Server configuration error: HF_API_KEY is missing.''), calls)
         \<and> response (fst (analyze_image g file calls)) =
           Some (500, [(''detail'', JString ''Server configuration error: HF_API_KEY is missing.'')])"
  using assms by (simp add: analyze_image_def not_key_def response_def status_defs)

theorem missing_key_is_500_witness:
  "HF_API_KEY (stub_globals None cat_client) = None
   \<and> analyze_image (stub_globals None cat_client) (stub_upload None (Inr [1, 2, 3])) [] =
       (Inl (HTTPException 500 ''Server configuration error: HF_API_KEY is missing.''), [])
   \<and> response (fst (analyze_image (stub_globals None cat_client)
                                    (stub_upload (Some ''text/plain'') (Inl IndexError)) [])) =
       Some (500, [(''detail'', JString ''Server configuration error: HF_API_KEY is missing.'')])"
proof -
  have k: "HF_API_KEY (stub_globals None cat_client) = None"
    by (simp add: stub_globals_def)
  show ?thesis
    using k missing_key_is_500 [OF k, of "stub_upload None (Inr [1, 2, 3])" "[]"]
      missing_key_is_500 [OF k, of "stub_upload (Some ''text/plain'') (Inl IndexError)" "[]"]
    by blast
qed

text \<open>
  C4. With the key present and a declared content type that does not start with
  \<^verbatim>\<open>image/\<close>, the handler raises the 400 and adds no call to the log: the upload is not
  read and neither inference call is made.
\<close>

theorem wrong_content_type_is_400:
  assumes "\<not> not_key (HF_API_KEY g)"
      and "content_type file = Some ct"
      and "\<not> startswith ct ''image/''"
  shows "analyze_image g file calls =
           (Inl (HTTPException 400 ''Invalid file type. Please upload an image.''), calls)
         \<and> response (fst (analyze_image g file calls)) =
           Some (400, [(''detail'', JString ''Invalid file type. Please upload an image.'')])"
  using assms by (simp add: analyze_image_def response_def status_defs)

theorem wrong_content_type_is_400_witness:
  "\<not> not_key (HF_API_KEY (stub_globals (Some ''hf_key'') cat_client))
   \<and> content_type (stub_upload (Some ''text/plain'') (Inr [1, 2, 3])) = Some ''text/plain''
   \<and> \<not> startswith ''text/plain'' ''image/''
   \<and> analyze_image (stub_globals (Some ''hf_key'') cat_client)
        (stub_upload (Some ''text/plain'') (Inr [1, 2, 3])) [] =
       (Inl (HTTPException 400 ''Invalid file type. Please upload an image.''), [])"
proof -
  have k: "\<not> not_key (HF_API_KEY (stub_globals (Some ''hf_key'') cat_client))"
    by (simp add: stub_globals_def not_key_def)
  have c: "content_type (stub_upload (Some ''text/plain'') (Inr [1, 2, 3])) = Some ''text/plain''"
    by (simp add: stub_upload_def)
  have p: "\<not> startswith ''text/plain'' ''image/''"
    by (simp add: startswith_def)
  show ?thesis
    using k c p wrong_content_type_is_400 [OF k c p, of "[]"] by simp
qed

text \<open>
  C10. With the key present and an upload that has no content type, the attribute lookup
  of line 61 raises \<^verbatim>\<open>AttributeError\<close> before the outer \<^verbatim>\<open>try\<close> is entered, and that
  exception is what leaves the handler: not the 400 of the content type check, not the
  500 of the last \<^verbatim>\<open>except\<close> clause, and no response of the handler's making. No call is
  added to the log.
\<close>

theorem missing_content_type_escapes:
  assumes "\<not> not_key (HF_API_KEY g)"
      and "content_type file = None"
  shows "analyze_image g file calls =
           (Inl (Other (AttributeError ''NoneType'' ''startswith'')), calls)
         \<and> response (fst (analyze_image g file calls)) = None
         \<and> fst (analyze_image g file calls) \<noteq>
             Inl (HTTPException 400 ''Invalid file type. Please upload an image.'')
         \<and> fst (analyze_image g file calls) \<noteq>
             Inl (HTTPException 500 ''An unexpected error occurred processing your request.'')"
  using assms by (simp add: analyze_image_def response_def)

theorem missing_content_type_escapes_witness:
  "\<not> not_key (HF_API_KEY (stub_globals (Some ''hf_key'') cat_client))
   \<and> content_type (stub_upload None (Inr [1, 2, 3])) = None
   \<and> analyze_image (stub_globals (Some ''hf_key'') cat_client) (stub_upload None (Inr [1, 2, 3])) [] =
       (Inl (Other (PyException None
          (CHR 0x27 # ''NoneType'' @ CHR 0x27 # '' object has no attribute '' @
           CHR 0x27 # ''startswith'' @ [CHR 0x27]))), [])
   \<and> response (fst (analyze_image (stub_globals (Some ''hf_key'') cat_client)
                                    (stub_upload None (Inr [1, 2, 3])) [])) = None"
proof -
  have k: "\<not> not_key (HF_API_KEY (stub_globals (Some ''hf_key'') cat_client))"
    by (simp add: stub_globals_def not_key_def)
  have c: "content_type (stub_upload None (Inr [1, 2, 3])) = None"
    by (simp add: stub_upload_def)
  show ?thesis
    using k c missing_content_type_escapes [OF k c, of "[]"]
    by (simp add: AttributeError_def quoted_def response_def)
qed

subsection \<open>The two stages\<close>

lemmas handler_defs = analyze_image_def try_body_def outer_except_def vision_stage_def
  logic_stage_def vision_failed_def logic_failed_def

text \<open>
  C1. On a request that passes both checks and whose upload is read, an exception raised by
  the image to text call is turned into the 503 whose detail is
  \<^verbatim>\<open>Vision model service failed: \<close> followed by \<^verbatim>\<open>str(e)\<close>, so the detail contains the
  upstream text. The calls made are the read and the image to text call: no chat
  completion call is in the log. The status is not 500 and the detail does not begin as
  the detail of a logic stage failure does.
\<close>

theorem vision_failure_is_503:
  assumes "\<not> not_key (HF_API_KEY g)"
      and "content_type file = Some ct"
      and "startswith ct ''image/''"
      and "read file = Inr image_content"
      and "image_to_text (hf_client g) image_content VISION_MODEL = Inl e"
  shows "analyze_image g file calls =
           (Inl (HTTPException 503 (''Vision model service failed: '' @ exc_str e)),
            calls @ [Read, ImageToText image_content VISION_MODEL])
         \<and> response (fst (analyze_image g file calls)) =
           Some (503, [(''detail'', JString (''Vision model service failed: '' @ exc_str e))])
         \<and> sublist (exc_str e) (''Vision model service failed: '' @ exc_str e)
         \<and> (\<forall>req. ChatCompletion req \<notin> set (snd (analyze_image g file [])))
         \<and> \<not> prefix ''Logic model service failed: '' (''Vision model service failed: '' @ exc_str e)"
proof -
  have run: "\<And>cs. analyze_image g file cs =
           (Inl (HTTPException 503 (''Vision model service failed: '' @ exc_str e)),
            cs @ [Read, ImageToText image_content VISION_MODEL])"
    using assms by (simp add: handler_defs status_defs)
  have "sublist (exc_str e) (''Vision model service failed: '' @ exc_str e)"
    by (rule sublist_append_leftI)
  then show ?thesis
    by (simp add: run response_def)
qed

theorem vision_failure_is_503_witness:
  "\<not> not_key (HF_API_KEY (stub_globals (Some ''hf_key'')
        (stub_client (Inl (failing ''504 Gateway Timeout'')) (Inr (reply (Some ''unused''))))))
   \<and> content_type (stub_upload (Some ''image/png'') (Inr [1, 2, 3])) = Some ''image/png''
   \<and> startswith ''image/png'' ''image/''
   \<and> read (stub_upload (Some ''image/png'') (Inr [1, 2, 3])) = Inr [1, 2, 3]
   \<and> image_to_text (hf_client (stub_globals (Some ''hf_key'')
        (stub_client (Inl (failing ''504 Gateway Timeout'')) (Inr (reply (Some ''unused''))))))
        [1, 2, 3] VISION_MODEL = Inl (failing ''504 Gateway Timeout'')
   \<and> analyze_image (stub_globals (Some ''hf_key'')
        (stub_client (Inl (failing ''504 Gateway Timeout'')) (Inr (reply (Some ''unused'')))))
        (stub_upload (Some ''image/png'') (Inr [1, 2, 3])) [] =
       (Inl (HTTPException 503 ''Vision model service failed: 504 Gateway Timeout''),
        [Read, ImageToText [1, 2, 3] ''microsoft/Florence-2-large''])"
proof -
  let ?g = "stub_globals (Some ''hf_key'')
        (stub_client (Inl (failing ''504 Gateway Timeout'')) (Inr (reply (Some ''unused''))))"
  let ?f = "stub_upload (Some ''image/png'') (Inr [1, 2, 3])"
  have k: "\<not> not_key (HF_API_KEY ?g)" by (simp add: stub_globals_def not_key_def)
  have c: "content_type ?f = Some ''image/png''" by (simp add: stub_upload_def)
  have p: "startswith ''image/png'' ''image/''" by (simp add: startswith_def)
  have r: "read ?f = Inr [1, 2, 3]" by (simp add: stub_upload_def)
  have v: "image_to_text (hf_client ?g) [1, 2, 3] VISION_MODEL = Inl (failing ''504 Gateway Timeout'')"
    by (simp add: stub_globals_def stub_client_def)
  show ?thesis
    using k c p r v vision_failure_is_503 [OF k c p r v, of "[]"]
    by (simp add: failing_def VISION_MODEL_def)
qed

text \<open>
  C2. When the image to text call returns a string and the chat completion call raises,
  the handler raises the 503 whose detail is \<^verbatim>\<open>Logic model service failed: \<close> followed by
  \<^verbatim>\<open>str(e)\<close>. Nothing is returned, and the body sent has neither a \<^verbatim>\<open>vision_output\<close> nor a
  \<^verbatim>\<open>final_answer\<close> key.
\<close>

theorem logic_failure_is_503:
  assumes "\<not> not_key (HF_API_KEY g)"
      and "content_type file = Some ct"
      and "startswith ct ''image/''"
      and "read file = Inr image_content"
      and "image_to_text (hf_client g) image_content VISION_MODEL = Inr (Text t)"
      and "chat_completion (hf_client g) (logic_request (prompt (strip t))) = Inl e"
  shows "analyze_image g file calls =
           (Inl (HTTPException 503 (''Logic model service failed: '' @ exc_str e)),
            calls @ [Read, ImageToText image_content VISION_MODEL,
                     ChatCompletion (logic_request (prompt (strip t)))])
         \<and> response (fst (analyze_image g file calls)) =
           Some (503, [(''detail'', JString (''Logic model service failed: '' @ exc_str e))])
         \<and> sublist (exc_str e) (''Logic model service failed: '' @ exc_str e)
         \<and> (\<forall>b. fst (analyze_image g file calls) \<noteq> Inr b)
         \<and> (\<forall>sc b. response (fst (analyze_image g file calls)) = Some (sc, b) \<longrightarrow>
               map_of b ''vision_output'' = None \<and> map_of b ''final_answer'' = None)"
proof -
  have run: "analyze_image g file calls =
           (Inl (HTTPException 503 (''Logic model service failed: '' @ exc_str e)),
            calls @ [Read, ImageToText image_content VISION_MODEL,
                     ChatCompletion (logic_request (prompt (strip t)))])"
    using assms by (simp add: handler_defs status_defs)
  have "sublist (exc_str e) (''Logic model service failed: '' @ exc_str e)"
    by (rule sublist_append_leftI)
  then show ?thesis
    by (simp add: run response_def)
qed

theorem logic_failure_is_503_witness:
  "\<not> not_key (HF_API_KEY (stub_globals (Some ''hf_key'')
        (stub_client (Inr (Text '' a dog '')) (Inl (failing ''rate limited'')))))
   \<and> content_type (stub_upload (Some ''image/png'') (Inr [1, 2, 3])) = Some ''image/png''
   \<and> startswith ''image/png'' ''image/''
   \<and> read (stub_upload (Some ''image/png'') (Inr [1, 2, 3])) = Inr [1, 2, 3]
   \<and> image_to_text (hf_client (stub_globals (Some ''hf_key'')
        (stub_client (Inr (Text '' a dog '')) (Inl (failing ''rate limited'')))))
        [1, 2, 3] VISION_MODEL = Inr (Text '' a dog '')
   \<and> chat_completion (hf_client (stub_globals (Some ''hf_key'')
        (stub_client (Inr (Text '' a dog '')) (Inl (failing ''rate limited'')))))
        (logic_request (prompt (strip '' a dog ''))) = Inl (failing ''rate limited'')
   \<and> response (fst (analyze_image (stub_globals (Some ''hf_key'')
        (stub_client (Inr (Text '' a dog '')) (Inl (failing ''rate limited''))))
        (stub_upload (Some ''image/png'') (Inr [1, 2, 3])) [])) =
       Some (503, [(''detail'', JString ''Logic model service failed: rate limited'')])"
proof -
  let ?g = "stub_globals (Some ''hf_key'')
        (stub_client (Inr (Text '' a dog '')) (Inl (failing ''rate limited'')))"
  let ?f = "stub_upload (Some ''image/png'') (Inr [1, 2, 3])"
  have k: "\<not> not_key (HF_API_KEY ?g)" by (simp add: stub_globals_def not_key_def)
  have c: "content_type ?f = Some ''image/png''" by (simp add: stub_upload_def)
  have p: "startswith ''image/png'' ''image/''" by (simp add: startswith_def)
  have r: "read ?f = Inr [1, 2, 3]" by (simp add: stub_upload_def)
  have v: "image_to_text (hf_client ?g) [1, 2, 3] VISION_MODEL = Inr (Text '' a dog '')"
    by (simp add: stub_globals_def stub_client_def)
  have l: "chat_completion (hf_client ?g) (logic_request (prompt (strip '' a dog ''))) =
             Inl (failing ''rate limited'')"
    by (simp add: stub_globals_def stub_client_def)
  show ?thesis
    using k c p r v l logic_failure_is_503 [OF k c p r v l, of "[]"]
    by (simp add: failing_def response_def)
qed

subsection \<open>Stripping and the prompt\<close>

text \<open>
  \<open>strip s\<close> is \<open>s\<close> without a prefix and a suffix of whitespace, and it neither begins nor
  ends with whitespace.
\<close>

lemma lstrip_split: "s = takeWhile isspace s @ lstrip s"
  by (simp add: lstrip_def)

lemma rstrip_split: "t = rstrip t @ rev (takeWhile isspace (rev t))"
proof -
  have "rev (takeWhile isspace (rev t) @ dropWhile isspace (rev t)) = t"
    by (simp only: takeWhile_dropWhile_id rev_rev_ident)
  then show ?thesis by (simp only: rev_append rstrip_def)
qed

lemma strip_split:
  "s = takeWhile isspace s @ strip s @ rev (takeWhile isspace (rev (lstrip s)))"
proof -
  have "lstrip s = strip s @ rev (takeWhile isspace (rev (lstrip s)))"
    unfolding strip_def by (rule rstrip_split)
  with lstrip_split [of s] show ?thesis by simp
qed

lemma strip_surrounded:
  "\<exists>l r. s = l @ strip s @ r \<and> (\<forall>c\<in>set l. isspace c) \<and> (\<forall>c\<in>set r. isspace c)"
proof (intro exI conjI)
  show "s = takeWhile isspace s @ strip s @ rev (takeWhile isspace (rev (lstrip s)))"
    by (rule strip_split)
  show "\<forall>c\<in>set (takeWhile isspace s). isspace c"
    by (auto dest: set_takeWhileD)
  show "\<forall>c\<in>set (rev (takeWhile isspace (rev (lstrip s)))). isspace c"
    by (auto dest: set_takeWhileD)
qed

lemma strip_last: "strip s \<noteq> [] \<Longrightarrow> \<not> isspace (last (strip s))"
proof -
  assume ne: "strip s \<noteq> []"
  let ?d = "dropWhile isspace (rev (lstrip s))"
  from ne have d: "?d \<noteq> []" by (simp add: strip_def rstrip_def)
  have "last (strip s) = hd ?d" using d by (simp add: strip_def rstrip_def last_rev)
  moreover have "\<not> isspace (hd ?d)" using d by (rule hd_dropWhile)
  ultimately show ?thesis by simp
qed

lemma strip_hd: "strip s \<noteq> [] \<Longrightarrow> \<not> isspace (hd (strip s))"
proof -
  assume ne: "strip s \<noteq> []"
  have sp: "lstrip s = strip s @ rev (takeWhile isspace (rev (lstrip s)))"
    unfolding strip_def by (rule rstrip_split)
  with ne have l: "lstrip s \<noteq> []" by auto
  from sp ne have "hd (lstrip s) = hd (strip s)" by (metis hd_append2)
  moreover have "\<not> isspace (hd (lstrip s))" using l unfolding lstrip_def by (rule hd_dropWhile)
  ultimately show ?thesis by simp
qed

lemma strip_red_bicycle: "strip ''  a red bicycle  '' = ''a red bicycle''"
  by (simp add: strip_def lstrip_def rstrip_def isspace_def)

lemma stage_two_reached:
  assumes "\<not> not_key (HF_API_KEY g)"
      and "content_type file = Some ct"
      and "startswith ct ''image/''"
      and "read file = Inr image_content"
      and "image_to_text (hf_client g) image_content VISION_MODEL = Inr (Text s)"
  shows "snd (analyze_image g file calls) =
           calls @ [Read, ImageToText image_content VISION_MODEL,
                    ChatCompletion (logic_request (prompt (strip s)))]"
  using assms
  by (simp add: handler_defs split: sum.splits list.splits prod.splits)

text \<open>
  C6. Whenever the image to text call returns a string \<open>s\<close>, the content of the one message
  sent to the chat completion call is the fixed text before, \<open>s\<close> stripped, and the fixed
  text after: the same template for every \<open>s\<close>, with nothing else of the request in it.
  \<open>strip s\<close> is \<open>s\<close> without the whitespace around it. For \<^verbatim>\<open>"  a red bicycle  "\<close> the
  prompt contains \<^verbatim>\<open>a red bicycle\<close>, and contains it neither with the two spaces before
  nor with the two spaces after.
\<close>

theorem prompt_is_template_of_stripped_text:
  assumes "\<not> not_key (HF_API_KEY g)"
      and "content_type file = Some ct"
      and "startswith ct ''image/''"
      and "read file = Inr image_content"
      and "image_to_text (hf_client g) image_content VISION_MODEL = Inr (Text s)"
  shows "(\<exists>req. snd (analyze_image g file calls) =
                  calls @ [Read, ImageToText image_content VISION_MODEL, ChatCompletion req]
              \<and> messages req =
                  [[(''role'', ''user''),
                    (''content'',
                     ''User uploaded an image containing this text: '' @ strip s @
                     ''. Act as a helpful assistant and answer the user's request based on this.'')]])
         \<and> (\<exists>l r. s = l @ strip s @ r \<and> (\<forall>c\<in>set l. isspace c) \<and> (\<forall>c\<in>set r. isspace c))
         \<and> (strip s \<noteq> [] \<longrightarrow> \<not> isspace (hd (strip s)) \<and> \<not> isspace (last (strip s)))
         \<and> (s = ''  a red bicycle  '' \<longrightarrow>
              strip s = ''a red bicycle''
              \<and> sublist ''a red bicycle'' (prompt (strip s))
              \<and> \<not> sublist ''  a red bicycle'' (prompt (strip s))
              \<and> \<not> sublist ''a red bicycle  '' (prompt (strip s)))"
proof (intro conjI)
  show "\<exists>req. snd (analyze_image g file calls) =
                  calls @ [Read, ImageToText image_content VISION_MODEL, ChatCompletion req]
              \<and> messages req =
                  [[(''role'', ''user''),
                    (''content'',
                     ''User uploaded an image containing this text: '' @ strip s @
                     ''. Act as a helpful assistant and answer the user's request based on this.'')]]"
    using stage_two_reached [OF assms, of calls]
    by (simp add: logic_request_def prompt_def)
  show "\<exists>l r. s = l @ strip s @ r \<and> (\<forall>c\<in>set l. isspace c) \<and> (\<forall>c\<in>set r. isspace c)"
    by (rule strip_surrounded)
  show "strip s \<noteq> [] \<longrightarrow> \<not> isspace (hd (strip s)) \<and> \<not> isspace (last (strip s))"
    using strip_hd strip_last by blast
  show "s = ''  a red bicycle  '' \<longrightarrow>
              strip s = ''a red bicycle''
              \<and> sublist ''a red bicycle'' (prompt (strip s))
              \<and> \<not> sublist ''  a red bicycle'' (prompt (strip s))
              \<and> \<not> sublist ''a red bicycle  '' (prompt (strip s))"
  proof
    assume s: "s = ''  a red bicycle  ''"
    have 1: "sublist ''a red bicycle'' (prompt ''a red bicycle'')" by code_simp
    have 2: "\<not> sublist ''  a red bicycle'' (prompt ''a red bicycle'')" by code_simp
    have 3: "\<not> sublist ''a red bicycle  '' (prompt ''a red bicycle'')" by code_simp
    show "strip s = ''a red bicycle''
              \<and> sublist ''a red bicycle'' (prompt (strip s))
              \<and> \<not> sublist ''  a red bicycle'' (prompt (strip s))
              \<and> \<not> sublist ''a red bicycle  '' (prompt (strip s))"
      unfolding s strip_red_bicycle using 1 2 3 by blast
  qed
qed

theorem prompt_is_template_of_stripped_text_witness:
  "\<not> not_key (HF_API_KEY (stub_globals (Some ''hf_key'') bicycle_client))
   \<and> content_type (stub_upload (Some ''image/png'') (Inr [1, 2, 3])) = Some ''image/png''
   \<and> startswith ''image/png'' ''image/''
   \<and> read (stub_upload (Some ''image/png'') (Inr [1, 2, 3])) = Inr [1, 2, 3]
   \<and> image_to_text (hf_client (stub_globals (Some ''hf_key'') bicycle_client)) [1, 2, 3]
        VISION_MODEL = Inr (Text ''  a red bicycle  '')
   \<and> strip ''  a red bicycle  '' = ''a red bicycle''
   \<and> sublist ''a red bicycle'' (prompt (strip ''  a red bicycle  ''))
   \<and> \<not> sublist ''  a red bicycle'' (prompt (strip ''  a red bicycle  ''))
   \<and> \<not> sublist ''a red bicycle  '' (prompt (strip ''  a red bicycle  ''))
   \<and> (\<exists>req. snd (analyze_image (stub_globals (Some ''hf_key'') bicycle_client)
                    (stub_upload (Some ''image/png'') (Inr [1, 2, 3])) []) =
               [Read, ImageToText [1, 2, 3] VISION_MODEL, ChatCompletion req]
            \<and> messages req =
               [[(''role'', ''user''),
                 (''content'',
                  ''User uploaded an image containing this text: a red bicycle. Act as a helpful assistant and answer the user's request based on this.'')]])"
proof -
  let ?g = "stub_globals (Some ''hf_key'') bicycle_client"
  let ?f = "stub_upload (Some ''image/png'') (Inr [1, 2, 3])"
  have k: "\<not> not_key (HF_API_KEY ?g)" by (simp add: stub_globals_def not_key_def)
  have c: "content_type ?f = Some ''image/png''" by (simp add: stub_upload_def)
  have p: "startswith ''image/png'' ''image/''" by (simp add: startswith_def)
  have r: "read ?f = Inr [1, 2, 3]" by (simp add: stub_upload_def)
  have v: "image_to_text (hf_client ?g) [1, 2, 3] VISION_MODEL = Inr (Text ''  a red bicycle  '')"
    by (simp add: stub_globals_def stub_client_def bicycle_client_def)
  note th = prompt_is_template_of_stripped_text [OF k c p r v, of "[]"]
  from th have s: "strip ''  a red bicycle  '' = ''a red bicycle''" by blast
  from th have e: "\<exists>req. snd (analyze_image ?g ?f []) =
               [Read, ImageToText [1, 2, 3] VISION_MODEL, ChatCompletion req]
            \<and> messages req =
               [[(''role'', ''user''),
                 (''content'',
                  ''User uploaded an image containing this text: a red bicycle. Act as a helpful assistant and answer the user's request based on this.'')]]"
    unfolding s by simp
  from th have 1: "sublist ''a red bicycle'' (prompt (strip ''  a red bicycle  ''))"
    and 2: "\<not> sublist ''  a red bicycle'' (prompt (strip ''  a red bicycle  ''))"
    and 3: "\<not> sublist ''a red bicycle  '' (prompt (strip ''  a red bicycle  ''))"
    by blast+
  from k c p r v s 1 2 3 e show ?thesis by blast
qed

lemma every_chat_call_is_a_logic_request:
  "ChatCompletion req \<in> set (snd (analyze_image g file [])) \<Longrightarrow> \<exists>p. req = logic_request p"
  by (auto simp: handler_defs split: if_splits option.splits sum.splits list.splits vision_result.splits)

text \<open>
  C7. Whenever the second stage is reached, the chat completion call is made with the
  logic model, one message with role \<^verbatim>\<open>user\<close> and the prompt as content, \<^verbatim>\<open>max_tokens\<close> 500
  and \<^verbatim>\<open>temperature\<close> 0.7. The answer is the content of the message of the first choice of
  the response. In every run of the handler, whatever the globals and the upload, a chat
  completion call has these two parameters, this model and a single message of role
  \<^verbatim>\<open>user\<close>.
\<close>

theorem logic_call_has_fixed_parameters:
  assumes "\<not> not_key (HF_API_KEY g)"
      and "content_type file = Some ct"
      and "startswith ct ''image/''"
      and "read file = Inr image_content"
      and "image_to_text (hf_client g) image_content VISION_MODEL = Inr (Text s)"
  shows "snd (analyze_image g file calls) =
           calls @ [Read, ImageToText image_content VISION_MODEL,
                    ChatCompletion \<lparr>model = ''Qwen/Qwen2.5-3B-Instruct'',
                                    messages = [[(''role'', ''user''), (''content'', prompt (strip s))]],
                                    max_tokens = 500,
                                    temperature = 7 / 10\<rparr>]
         \<and> (\<forall>resp first others.
               chat_completion (hf_client g) (logic_request (prompt (strip s))) = Inr resp
               \<and> choices resp = first # others \<longrightarrow>
               fst (analyze_image g file calls) =
                 Inr [(''vision_output'', JString (strip s)),
                      (''final_answer'', json_of (content (message first)))])
         \<and> (\<forall>g' file' req. ChatCompletion req \<in> set (snd (analyze_image g' file' [])) \<longrightarrow>
               max_tokens req = 500 \<and> temperature req = 7 / 10 \<and> model req = LOGIC_MODEL
               \<and> (\<exists>p. messages req = [[(''role'', ''user''), (''content'', p)]]))"
proof (intro conjI allI impI)
  show "snd (analyze_image g file calls) =
           calls @ [Read, ImageToText image_content VISION_MODEL,
                    ChatCompletion \<lparr>model = ''Qwen/Qwen2.5-3B-Instruct'',
                                    messages = [[(''role'', ''user''), (''content'', prompt (strip s))]],
                                    max_tokens = 500,
                                    temperature = 7 / 10\<rparr>]"
    using stage_two_reached [OF assms, of calls]
    by (simp add: logic_request_def LOGIC_MODEL_def)
next
  fix resp first others
  assume "chat_completion (hf_client g) (logic_request (prompt (strip s))) = Inr resp
               \<and> choices resp = first # others"
  with assms show "fst (analyze_image g file calls) =
                 Inr [(''vision_output'', JString (strip s)),
                      (''final_answer'', json_of (content (message first)))]"
    by (simp add: handler_defs)
next
  fix g' file' req
  assume "ChatCompletion req \<in> set (snd (analyze_image g' file' []))"
  then obtain p where "req = logic_request p"
    using every_chat_call_is_a_logic_request by blast
  then show "max_tokens req = 500" "temperature req = 7 / 10" "model req = LOGIC_MODEL"
    "\<exists>p. messages req = [[(''role'', ''user''), (''content'', p)]]"
    by (simp_all add: logic_request_def)
qed

theorem logic_call_has_fixed_parameters_witness:
  "\<not> not_key (HF_API_KEY (stub_globals (Some ''hf_key'') cat_client))
   \<and> content_type (stub_upload (Some ''image/png'') (Inr [1, 2, 3])) = Some ''image/png''
   \<and> startswith ''image/png'' ''image/''
   \<and> read (stub_upload (Some ''image/png'') (Inr [1, 2, 3])) = Inr [1, 2, 3]
   \<and> image_to_text (hf_client (stub_globals (Some ''hf_key'') cat_client)) [1, 2, 3]
        VISION_MODEL = Inr (Text ''a cat sitting on a mat'')
   \<and> snd (analyze_image (stub_globals (Some ''hf_key'') cat_client)
             (stub_upload (Some ''image/png'') (Inr [1, 2, 3])) []) =
       [Read, ImageToText [1, 2, 3] VISION_MODEL,
        ChatCompletion \<lparr>model = ''Qwen/Qwen2.5-3B-Instruct'',
          messages = [[(''role'', ''user''),
                       (''content'', prompt (strip ''a cat sitting on a mat''))]],
          max_tokens = 500, temperature = 7 / 10\<rparr>]
   \<and> chat_completion (hf_client (stub_globals (Some ''hf_key'') cat_client))
        (logic_request (prompt (strip ''a cat sitting on a mat''))) =
        Inr (reply (Some ''The cat is on the mat.''))
   \<and> choices (reply (Some ''The cat is on the mat.'')) =
        \<lparr>message = \<lparr>content = Some ''The cat is on the mat.''\<rparr>\<rparr> # []
   \<and> fst (analyze_image (stub_globals (Some ''hf_key'') cat_client)
             (stub_upload (Some ''image/png'') (Inr [1, 2, 3])) []) =
       Inr [(''vision_output'', JString (strip ''a cat sitting on a mat'')),
            (''final_answer'', JString ''The cat is on the mat.'')]
   \<and> ChatCompletion (logic_request (prompt (strip ''a cat sitting on a mat'')))
        \<in> set (snd (analyze_image (stub_globals (Some ''hf_key'') cat_client)
                       (stub_upload (Some ''image/png'') (Inr [1, 2, 3])) []))
   \<and> max_tokens (logic_request (prompt (strip ''a cat sitting on a mat''))) = 500
   \<and> temperature (logic_request (prompt (strip ''a cat sitting on a mat''))) = 7 / 10"
proof -
  let ?g = "stub_globals (Some ''hf_key'') cat_client"
  let ?f = "stub_upload (Some ''image/png'') (Inr [1, 2, 3])"
  let ?first = "\<lparr>message = \<lparr>content = Some ''The cat is on the mat.''\<rparr>\<rparr>"
  let ?req = "logic_request (prompt (strip ''a cat sitting on a mat''))"
  have k: "\<not> not_key (HF_API_KEY ?g)" by (simp add: stub_globals_def not_key_def)
  have c: "content_type ?f = Some ''image/png''" by (simp add: stub_upload_def)
  have p: "startswith ''image/png'' ''image/''" by (simp add: startswith_def)
  have r: "read ?f = Inr [1, 2, 3]" by (simp add: stub_upload_def)
  have v: "image_to_text (hf_client ?g) [1, 2, 3] VISION_MODEL =
             Inr (Text ''a cat sitting on a mat'')"
    by (simp add: stub_globals_def stub_client_def cat_client_def)
  have l: "chat_completion (hf_client ?g) ?req = Inr (reply (Some ''The cat is on the mat.''))"
    by (simp add: stub_globals_def stub_client_def cat_client_def)
  have ch: "choices (reply (Some ''The cat is on the mat.'')) = ?first # []"
    by (simp add: reply_def)
  note th = logic_call_has_fixed_parameters [OF k c p r v, of "[]"]
  from th have calls: "snd (analyze_image ?g ?f []) =
       [Read, ImageToText [1, 2, 3] VISION_MODEL,
        ChatCompletion \<lparr>model = ''Qwen/Qwen2.5-3B-Instruct'',
          messages = [[(''role'', ''user''),
                       (''content'', prompt (strip ''a cat sitting on a mat''))]],
          max_tokens = 500, temperature = 7 / 10\<rparr>]"
    by simp
  from th l ch have "fst (analyze_image ?g ?f []) =
       Inr [(''vision_output'', JString (strip ''a cat sitting on a mat'')),
            (''final_answer'', json_of (content (message ?first)))]"
    by blast
  then have out: "fst (analyze_image ?g ?f []) =
       Inr [(''vision_output'', JString (strip ''a cat sitting on a mat'')),
            (''final_answer'', JString ''The cat is on the mat.'')]"
    by (simp add: json_of_def)
  have mem: "ChatCompletion ?req \<in> set (snd (analyze_image ?g ?f []))"
    unfolding calls by (simp add: logic_request_def LOGIC_MODEL_def)
  with th have par: "max_tokens ?req = 500 \<and> temperature ?req = 7 / 10"
    by blast
  from k c p r v calls l ch out mem par show ?thesis by blast
qed

subsection \<open>The answer\<close>

text \<open>
  C5. When the image to text call returns a string \<open>t\<close> and the chat completion call
  returns a response with a first choice, the handler returns the dictionary with exactly
  the two keys \<^verbatim>\<open>vision_output\<close> and \<^verbatim>\<open>final_answer\<close>, and the response has status 200.
  \<^verbatim>\<open>vision_output\<close> is always a string: \<open>t\<close> without the whitespace around it.
  \<^verbatim>\<open>final_answer\<close> is the content of the message of the first choice, passed on as it is: a
  string when that content is a string, null when it is \<^verbatim>\<open>None\<close>. With
  \<^verbatim>\<open>a cat sitting on a mat\<close> from the first call and \<^verbatim>\<open>The cat is on the mat.\<close> from the
  second, the body is those two strings under those two keys.
\<close>

theorem success_passes_content_on:
  assumes "\<not> not_key (HF_API_KEY g)"
      and "content_type file = Some ct"
      and "startswith ct ''image/''"
      and "read file = Inr image_content"
      and "image_to_text (hf_client g) image_content VISION_MODEL = Inr (Text t)"
      and "chat_completion (hf_client g) (logic_request (prompt (strip t))) = Inr resp"
      and "choices resp = first # others"
  shows "analyze_image g file calls =
           (Inr [(''vision_output'', JString (strip t)),
                 (''final_answer'', json_of (content (message first)))],
            calls @ [Read, ImageToText image_content VISION_MODEL,
                     ChatCompletion (logic_request (prompt (strip t)))])
         \<and> (\<forall>a. content (message first) = Some a \<longrightarrow>
               response (fst (analyze_image g file calls)) =
                 Some (200, [(''vision_output'', JString (strip t)), (''final_answer'', JString a)]))
         \<and> (content (message first) = None \<longrightarrow>
               response (fst (analyze_image g file calls)) =
                 Some (200, [(''vision_output'', JString (strip t)), (''final_answer'', JNull)]))
         \<and> (\<exists>l r. t = l @ strip t @ r \<and> (\<forall>c\<in>set l. isspace c) \<and> (\<forall>c\<in>set r. isspace c))
         \<and> (strip t \<noteq> [] \<longrightarrow> \<not> isspace (hd (strip t)) \<and> \<not> isspace (last (strip t)))
         \<and> (t = ''a cat sitting on a mat''
              \<and> content (message first) = Some ''The cat is on the mat.'' \<longrightarrow>
              response (fst (analyze_image g file calls)) =
                Some (200, [(''vision_output'', JString ''a cat sitting on a mat''),
                            (''final_answer'', JString ''The cat is on the mat.'')]))"
proof -
  have run: "analyze_image g file calls =
           (Inr [(''vision_output'', JString (strip t)),
                 (''final_answer'', json_of (content (message first)))],
            calls @ [Read, ImageToText image_content VISION_MODEL,
                     ChatCompletion (logic_request (prompt (strip t)))])"
    using assms by (simp add: handler_defs)
  have cat: "strip ''a cat sitting on a mat'' = ''a cat sitting on a mat''"
    by (simp add: strip_def lstrip_def rstrip_def isspace_def)
  have some: "\<forall>a. content (message first) = Some a \<longrightarrow>
               response (fst (analyze_image g file calls)) =
                 Some (200, [(''vision_output'', JString (strip t)), (''final_answer'', JString a)])"
    by (simp add: run response_def json_of_def)
  have none: "content (message first) = None \<longrightarrow>
               response (fst (analyze_image g file calls)) =
                 Some (200, [(''vision_output'', JString (strip t)), (''final_answer'', JNull)])"
    by (simp add: run response_def json_of_def)
  have around: "\<exists>l r. t = l @ strip t @ r \<and> (\<forall>c\<in>set l. isspace c) \<and> (\<forall>c\<in>set r. isspace c)"
    by (rule strip_surrounded)
  have ends: "strip t \<noteq> [] \<longrightarrow> \<not> isspace (hd (strip t)) \<and> \<not> isspace (last (strip t))"
    using strip_hd strip_last by blast
  have example: "t = ''a cat sitting on a mat''
              \<and> content (message first) = Some ''The cat is on the mat.'' \<longrightarrow>
              response (fst (analyze_image g file calls)) =
                Some (200, [(''vision_output'', JString ''a cat sitting on a mat''),
                            (''final_answer'', JString ''The cat is on the mat.'')])"
    using some cat by auto
  from run some none around ends example show ?thesis by blast
qed

theorem success_passes_content_on_witness:
  "\<not> not_key (HF_API_KEY (stub_globals (Some ''hf_key'') cat_client))
   \<and> content_type (stub_upload (Some ''image/jpeg'') (Inr [255, 216, 255])) = Some ''image/jpeg''
   \<and> startswith ''image/jpeg'' ''image/''
   \<and> read (stub_upload (Some ''image/jpeg'') (Inr [255, 216, 255])) = Inr [255, 216, 255]
   \<and> image_to_text (hf_client (stub_globals (Some ''hf_key'') cat_client)) [255, 216, 255]
        VISION_MODEL = Inr (Text ''a cat sitting on a mat'')
   \<and> chat_completion (hf_client (stub_globals (Some ''hf_key'') cat_client))
        (logic_request (prompt (strip ''a cat sitting on a mat''))) =
        Inr (reply (Some ''The cat is on the mat.''))
   \<and> choices (reply (Some ''The cat is on the mat.'')) =
        \<lparr>message = \<lparr>content = Some ''The cat is on the mat.''\<rparr>\<rparr> # []
   \<and> content (message \<lparr>message = \<lparr>content = Some ''The cat is on the mat.''\<rparr>\<rparr>) =
        Some ''The cat is on the mat.''
   \<and> response (fst (analyze_image (stub_globals (Some ''hf_key'') cat_client)
        (stub_upload (Some ''image/jpeg'') (Inr [255, 216, 255])) [])) =
       Some (200, [(''vision_output'', JString ''a cat sitting on a mat''),
                   (''final_answer'', JString ''The cat is on the mat.'')])"
proof -
  let ?g = "stub_globals (Some ''hf_key'') cat_client"
  let ?f = "stub_upload (Some ''image/jpeg'') (Inr [255, 216, 255])"
  let ?first = "\<lparr>message = \<lparr>content = Some ''The cat is on the mat.''\<rparr>\<rparr>"
  have k: "\<not> not_key (HF_API_KEY ?g)" by (simp add: stub_globals_def not_key_def)
  have c: "content_type ?f = Some ''image/jpeg''" by (simp add: stub_upload_def)
  have p: "startswith ''image/jpeg'' ''image/''" by (simp add: startswith_def)
  have r: "read ?f = Inr [255, 216, 255]" by (simp add: stub_upload_def)
  have v: "image_to_text (hf_client ?g) [255, 216, 255] VISION_MODEL =
             Inr (Text ''a cat sitting on a mat'')"
    by (simp add: stub_globals_def stub_client_def cat_client_def)
  have l: "chat_completion (hf_client ?g) (logic_request (prompt (strip ''a cat sitting on a mat''))) =
             Inr (reply (Some ''The cat is on the mat.''))"
    by (simp add: stub_globals_def stub_client_def cat_client_def)
  have ch: "choices (reply (Some ''The cat is on the mat.'')) = ?first # []"
    by (simp add: reply_def)
  have a: "content (message ?first) = Some ''The cat is on the mat.''" by simp
  from success_passes_content_on [OF k c p r v l ch, of "[]"] a
  have "response (fst (analyze_image ?g ?f [])) =
       Some (200, [(''vision_output'', JString ''a cat sitting on a mat''),
                   (''final_answer'', JString ''The cat is on the mat.'')])"
    by blast
  with k c p r v l ch a show ?thesis by blast
qed

text \<open>
  Both calls return, the first choice's message has no content, and the handler answers
  200 with a \<^verbatim>\<open>final_answer\<close> that is null: a request in which both stages succeed can
  get a body whose two fields are not both strings.
\<close>

theorem null_final_answer_counterexample:
  "image_to_text (hf_client (stub_globals (Some ''hf_key'')
        (stub_client (Inr (Text ''a cat sitting on a mat'')) (Inr (reply None)))))
        [1, 2, 3] VISION_MODEL = Inr (Text ''a cat sitting on a mat'')
   \<and> chat_completion (hf_client (stub_globals (Some ''hf_key'')
        (stub_client (Inr (Text ''a cat sitting on a mat'')) (Inr (reply None)))))
        (logic_request (prompt (strip ''a cat sitting on a mat''))) =
        Inr \<lparr>choices = [\<lparr>message = \<lparr>content = None\<rparr>\<rparr>]\<rparr>
   \<and> response (fst (analyze_image (stub_globals (Some ''hf_key'')
        (stub_client (Inr (Text ''a cat sitting on a mat'')) (Inr (reply None))))
        (stub_upload (Some ''image/png'') (Inr [1, 2, 3])) [])) =
       Some (200, [(''vision_output'', JString ''a cat sitting on a mat''),
                   (''final_answer'', JNull)])
   \<and> JNull \<noteq> JString ''The cat is on the mat.''"
  by (simp add: handler_defs stub_globals_def stub_client_def stub_upload_def reply_def
        response_def json_of_def not_key_def startswith_def
        strip_def lstrip_def rstrip_def isspace_def)

text \<open>
  What the handler does with other replies it does not expect. A response with no choice
  fails inside the second \<^verbatim>\<open>try\<close> and a result of the first call that is not a string
  fails inside the first, each with the 503 of its stage.
\<close>

lemma no_choice_is_503:
  assumes "\<not> not_key (HF_API_KEY g)"
      and "content_type file = Some ct"
      and "startswith ct ''image/''"
      and "read file = Inr image_content"
      and "image_to_text (hf_client g) image_content VISION_MODEL = Inr (Text t)"
      and "chat_completion (hf_client g) (logic_request (prompt (strip t))) = Inr resp"
      and "choices resp = []"
  shows "response (fst (analyze_image g file calls)) =
           Some (503, [(''detail'', JString ''Logic model service failed: list index out of range'')])"
  using assms by (simp add: handler_defs response_def status_defs IndexError_def)

lemma non_text_is_503:
  assumes "\<not> not_key (HF_API_KEY g)"
      and "content_type file = Some ct"
      and "startswith ct ''image/''"
      and "read file = Inr image_content"
      and "image_to_text (hf_client g) image_content VISION_MODEL = Inr (NonText cls)"
  shows "analyze_image g file calls =
           (Inl (HTTPException 503
                  (''Vision model service failed: '' @ exc_str (AttributeError cls ''strip''))),
            calls @ [Read, ImageToText image_content VISION_MODEL])"
  using assms by (simp add: handler_defs status_defs)

subsection \<open>The outer boundary\<close>

text \<open>
  What the body of the outer \<^verbatim>\<open>try\<close> can raise: what the read raised, or the 503 of one of
  the two stages.
\<close>

lemma vision_stage_raises:
  "vision_stage client b = Inl r \<Longrightarrow>
     \<exists>t. r = HTTPException 503 (''Vision model service failed: '' @ t)"
  by (auto simp: vision_stage_def vision_failed_def status_defs
           split: sum.splits vision_result.splits)

lemma logic_stage_raises:
  "logic_stage client req = Inl r \<Longrightarrow>
     \<exists>t. r = HTTPException 503 (''Logic model service failed: '' @ t)"
  by (auto simp: logic_stage_def logic_failed_def status_defs
           split: sum.splits list.splits)

lemma try_body_raises:
  assumes "fst (try_body g file calls) = Inl r"
  shows "(\<exists>e. read file = Inl e \<and> r = raise e)
         \<or> (\<exists>t. r = HTTPException 503 (''Vision model service failed: '' @ t))
         \<or> (\<exists>t. r = HTTPException 503 (''Logic model service failed: '' @ t))"
proof (cases "read file")
  case (Inl e)
  with assms show ?thesis by (simp add: try_body_def)
next
  case (Inr b)
  show ?thesis
  proof (cases "vision_stage (hf_client g) b")
    case (Inl r')
    with Inr assms have "r = r'" by (simp add: try_body_def)
    with Inl vision_stage_raises show ?thesis by blast
  next
    case v: (Inr d)
    show ?thesis
    proof (cases "logic_stage (hf_client g) (logic_request (prompt d))")
      case (Inl r')
      with Inr v assms have "r = r'" by (simp add: try_body_def)
      with Inl logic_stage_raises show ?thesis by blast
    next
      case l: (Inr a)
      with Inr v assms show ?thesis by (simp add: try_body_def)
    qed
  qed
qed

lemma read_failure_is_fixed_500:
  assumes "\<not> not_key (HF_API_KEY g)"
      and "content_type file = Some ct"
      and "startswith ct ''image/''"
      and "read file = Inl e"
      and "exc_http e = None"
  shows "analyze_image g file calls =
           (Inl (HTTPException 500 ''An unexpected error occurred processing your request.''),
            calls @ [Read])"
  using assms by (simp add: analyze_image_def try_body_def outer_except_def raise_def status_defs)

lemma http_exception_cases:
  assumes "\<forall>e. read file = Inl e \<longrightarrow> exc_http e = None"
      and "fst (analyze_image g file calls) = Inl (HTTPException sc d)"
  shows "d = ''Server configuration error: HF_API_KEY is missing.''
         \<or> d = ''Invalid file type. Please upload an image.''
         \<or> d = ''An unexpected error occurred processing your request.''
         \<or> sc = 503 \<and> (prefix ''Vision model service failed: '' d
                        \<or> prefix ''Logic model service failed: '' d)"
proof (cases "not_key (HF_API_KEY g)")
  case True
  with assms(2) show ?thesis by (simp add: analyze_image_def)
next
  case key: False
  show ?thesis
  proof (cases "content_type file")
    case None
    with key assms(2) show ?thesis by (simp add: analyze_image_def)
  next
    case (Some ct)
    show ?thesis
    proof (cases "startswith ct ''image/''")
      case False
      with key Some assms(2) show ?thesis by (simp add: analyze_image_def)
    next
      case True
      with key Some assms(2)
      have out: "outer_except (fst (try_body g file calls)) = Inl (HTTPException sc d)"
        by (simp add: analyze_image_def split: prod.splits)
      show ?thesis
      proof (cases "fst (try_body g file calls)")
        case (Inr b)
        with out show ?thesis by (simp add: outer_except_def)
      next
        case (Inl r)
        from try_body_raises [OF Inl] consider
          (rd) e where "read file = Inl e" "r = raise e"
          | (vis) t where "r = HTTPException 503 (''Vision model service failed: '' @ t)"
          | (lgc) t where "r = HTTPException 503 (''Logic model service failed: '' @ t)"
          by blast
        then show ?thesis
        proof cases
          case rd
          with assms(1) have "r = Other e" by (simp add: raise_def)
          with out Inl have "d = ''An unexpected error occurred processing your request.''"
            by (simp add: outer_except_def)
          then show ?thesis by blast
        next
          case vis
          with out Inl have "sc = 503" "d = ''Vision model service failed: '' @ t"
            by (simp_all add: outer_except_def)
          then show ?thesis by (blast intro: prefixI)
        next
          case lgc
          with out Inl have "sc = 503" "d = ''Logic model service failed: '' @ t"
            by (simp_all add: outer_except_def)
          then show ?thesis by (blast intro: prefixI)
        qed
      qed
    qed
  qed
qed

text \<open>
  C8. The one call inside the outer \<^verbatim>\<open>try\<close> and outside both inner ones is the read of
  the upload. When what it raises is not an \<^verbatim>\<open>HTTPException\<close>, it is caught by the last
  \<^verbatim>\<open>except\<close> clause and the handler raises the 500 whose detail is one fixed sentence,
  the same whatever the text of the exception. Of all the details the handler can send,
  only those of status 503 that begin with the words of a stage handler carry text from
  outside; every other detail is one of three fixed sentences.
\<close>

theorem unclassified_exception_is_fixed_500:
  assumes "\<forall>e. read file = Inl e \<longrightarrow> exc_http e = None"
  shows "(\<forall>e ct. \<not> not_key (HF_API_KEY g) \<and> content_type file = Some ct
                  \<and> startswith ct ''image/'' \<and> read file = Inl e \<longrightarrow>
            analyze_image g file calls =
              (Inl (HTTPException 500 ''An unexpected error occurred processing your request.''),
               calls @ [Read])
            \<and> response (fst (analyze_image g file calls)) =
              Some (500, [(''detail'',
                           JString ''An unexpected error occurred processing your request.'')]))
         \<and> (\<forall>sc d. fst (analyze_image g file calls) = Inl (HTTPException sc d) \<longrightarrow>
               d = ''Server configuration error: HF_API_KEY is missing.''
               \<or> d = ''Invalid file type. Please upload an image.''
               \<or> d = ''An unexpected error occurred processing your request.''
               \<or> sc = 503 \<and> (prefix ''Vision model service failed: '' d
                              \<or> prefix ''Logic model service failed: '' d))"
proof (intro conjI allI impI)
  fix e ct
  assume h: "\<not> not_key (HF_API_KEY g) \<and> content_type file = Some ct
                  \<and> startswith ct ''image/'' \<and> read file = Inl e"
  with assms have n: "exc_http e = None" by blast
  from h n have run: "analyze_image g file calls =
              (Inl (HTTPException 500 ''An unexpected error occurred processing your request.''),
               calls @ [Read])"
    using read_failure_is_fixed_500 by blast
  show "analyze_image g file calls =
              (Inl (HTTPException 500 ''An unexpected error occurred processing your request.''),
               calls @ [Read])"
    by (rule run)
  show "response (fst (analyze_image g file calls)) =
              Some (500, [(''detail'',
                           JString ''An unexpected error occurred processing your request.'')])"
    by (simp add: run response_def)
next
  fix sc d
  assume "fst (analyze_image g file calls) = Inl (HTTPException sc d)"
  with assms show "d = ''Server configuration error: HF_API_KEY is missing.''
               \<or> d = ''Invalid file type. Please upload an image.''
               \<or> d = ''An unexpected error occurred processing your request.''
               \<or> sc = 503 \<and> (prefix ''Vision model service failed: '' d
                              \<or> prefix ''Logic model service failed: '' d)"
    by (rule http_exception_cases)
qed

theorem unclassified_exception_is_fixed_500_witness:
  "read (stub_upload (Some ''image/png'') (Inl (failing ''disk error''))) =
     Inl (failing ''disk error'')
   \<and> exc_http (failing ''disk error'') = None
   \<and> \<not> not_key (HF_API_KEY (stub_globals (Some ''hf_key'') cat_client))
   \<and> content_type (stub_upload (Some ''image/png'') (Inl (failing ''disk error''))) =
       Some ''image/png''
   \<and> startswith ''image/png'' ''image/''
   \<and> analyze_image (stub_globals (Some ''hf_key'') cat_client)
        (stub_upload (Some ''image/png'') (Inl (failing ''disk error''))) [] =
       (Inl (HTTPException 500 ''An unexpected error occurred processing your request.''),
        [Read])
   \<and> response (fst (analyze_image (stub_globals (Some ''hf_key'') cat_client)
        (stub_upload (Some ''image/png'') (Inl (failing ''disk error''))) [])) =
       Some (500, [(''detail'',
                    JString ''An unexpected error occurred processing your request.'')])"
proof -
  let ?g = "stub_globals (Some ''hf_key'') cat_client"
  let ?f = "stub_upload (Some ''image/png'') (Inl (failing ''disk error''))"
  have r: "read ?f = Inl (failing ''disk error'')" by (simp add: stub_upload_def)
  have n: "exc_http (failing ''disk error'') = None" by (simp add: failing_def)
  have a: "\<forall>e. read ?f = Inl e \<longrightarrow> exc_http e = None" using r n by simp
  have k: "\<not> not_key (HF_API_KEY ?g)" by (simp add: stub_globals_def not_key_def)
  have c: "content_type ?f = Some ''image/png''" by (simp add: stub_upload_def)
  have p: "startswith ''image/png'' ''image/''" by (simp add: startswith_def)
  from unclassified_exception_is_fixed_500 [OF a, of ?g "[]"] k c p r
  have "analyze_image ?g ?f [] =
       (Inl (HTTPException 500 ''An unexpected error occurred processing your request.''),
        [] @ [Read])
     \<and> response (fst (analyze_image ?g ?f [])) =
       Some (500, [(''detail'',
                    JString ''An unexpected error occurred processing your request.'')])"
    by blast
  with r n k c p show ?thesis by (simp add: response_def)
qed

text \<open>
  The clause \<^verbatim>\<open>except HTTPException as he: raise he\<close> lets every \<^verbatim>\<open>HTTPException\<close> through,
  so one raised by the read itself would leave the handler with its own status and detail.
\<close>

lemma http_exception_of_read_passes_through:
  assumes "\<not> not_key (HF_API_KEY g)"
      and "content_type file = Some ct"
      and "startswith ct ''image/''"
      and "read file = Inl e"
      and "exc_http e = Some (sc, d)"
  shows "analyze_image g file calls = (Inl (HTTPException sc d), calls @ [Read])"
  using assms by (simp add: analyze_image_def try_body_def outer_except_def raise_def)

subsection \<open>What the handler reads\<close>

text \<open>
  The handler appends to the log and never reads it, and of the upload it reads the
  content type and the bytes only.
\<close>

lemma analyze_image_appends:
  "analyze_image g file calls =
     (fst (analyze_image g file []), calls @ snd (analyze_image g file []))"
  by (simp add: analyze_image_def try_body_def
           split: option.splits sum.splits prod.splits)

lemma analyze_image_reads_two_fields:
  assumes "content_type f1 = content_type f2" and "read f1 = read f2"
  shows "analyze_image g f1 calls = analyze_image g f2 calls"
proof -
  have "try_body g f1 calls = try_body g f2 calls"
    by (simp add: try_body_def assms)
  then show ?thesis
    by (simp add: analyze_image_def assms split: option.splits)
qed

end
